theory Spec2Isabelle
  imports Main "HOL-Library.Word" "HOL-Library.Monad_Syntax"
begin

unbundle bit_operations_syntax

section \<open>Shared enumerations and machine types of MemStax.h\<close>

text \<open>
  \<^verbatim>\<open>size_t\<close> is taken as a 64-bit unsigned integer, \<^verbatim>\<open>uint32_t\<close> and \<^verbatim>\<open>uint8_t\<close> as
  32-bit and 8-bit ones: arithmetic wraps around and comparisons are unsigned.
\<close>

type_synonym size_t = "64 word"
type_synonym uint32_t = "32 word"
type_synonym uint8_t = "8 word"

datatype MEMERR =
    MEMERR_NO_ERR
  | MEMERR_UNKNOWN
  | MEMERR_OUT_OF_MEM
  | MEMERR_INVALID_MEM
  | MEMERR_CORRUPT_MEM
  | MEMERR_DOUBLE_ALLOC
  | MEMERR_UNINITALIZED
  | MEMERR_INVALID_FUNCTION_PARAMETER
  | MEMERR_INVALID_FILE

definition MEMFLAGS_NONE :: uint8_t where
  "MEMFLAGS_NONE = 0x00"

definition MEMFLAGS_DISABLE_DEBUG_MSG :: uint8_t where
  "MEMFLAGS_DISABLE_DEBUG_MSG = 0x01"

definition MEMFLAGS_OVERRIDE_DOUBLE_ALLOC :: uint8_t where
  "MEMFLAGS_OVERRIDE_DOUBLE_ALLOC = 0x02"

datatype MEMCALL =
    MEMCALL_ALLOC
  | MEMCALL_DEALLOC
  | MEMCALL_MEM_ERR
  | MEMCALL_INVALID_MEM

text \<open>
  An out-parameter \<^verbatim>\<open>MEMERR *error\<close>: \<open>None\<close> is the null pointer, \<open>Some e\<close> a
  pointer to a variable that currently holds \<open>e\<close>. \<open>set_error\<close> is the guarded store
  \<^verbatim>\<open>if(error) { *error = v; }\<close>.
\<close>

definition set_error :: "MEMERR option \<Rightarrow> MEMERR \<Rightarrow> MEMERR option" where
  "set_error error v = (case error of None \<Rightarrow> None | Some _ \<Rightarrow> Some v)"

section \<open>The file stream the trace log owns\<close>

text \<open>
  What \<^verbatim>\<open>std::fstream\<close> does, as far as MemTrace uses it. A path of the file system
  either cannot be opened for writing (\<open>NoAccess\<close>), names no file yet (\<open>Absent\<close>) or
  names a file with its contents. A stream knows the path it is open on and its
  fail bit. \<^verbatim>\<open>open\<close> on a stream that is already open fails without touching any file
  and sets the fail bit; a successful \<^verbatim>\<open>open\<close> clears the state; \<^verbatim>\<open>close\<close> on a stream
  that is not open sets the fail bit; output on a stream whose fail bit is set, or that
  is not open, writes nothing.
\<close>

datatype node = NoAccess | Absent | File string

datatype openmode = ios_trunc | ios_app

record fstream =
  fd :: "string option"
  failbit :: bool

definition closed_stream :: fstream where
  "closed_stream = \<lparr>fd = None, failbit = False\<rparr>"

definition is_open :: "fstream \<Rightarrow> bool" where
  "is_open f = (fd f \<noteq> None)"

definition fstream_open ::
  "string \<Rightarrow> openmode \<Rightarrow> fstream \<Rightarrow> (string \<Rightarrow> node) \<Rightarrow> fstream \<times> (string \<Rightarrow> node)" where
  "fstream_open path mode f fs =
     (if is_open f then (f\<lparr>failbit := True\<rparr>, fs)
      else case fs path of
          NoAccess \<Rightarrow> (f\<lparr>failbit := True\<rparr>, fs)
        | Absent \<Rightarrow> (\<lparr>fd = Some path, failbit = False\<rparr>, fs(path := File []))
        | File c \<Rightarrow> (\<lparr>fd = Some path, failbit = False\<rparr>,
                     fs(path := File (case mode of ios_trunc \<Rightarrow> [] | ios_app \<Rightarrow> c))))"

definition fstream_close :: "fstream \<Rightarrow> fstream" where
  "fstream_close f = (if is_open f then f\<lparr>fd := None\<rparr> else f\<lparr>failbit := True\<rparr>)"

definition endl :: string where
  "endl = [CHR 0x0A]"

text \<open>\<^verbatim>\<open>*file << msg << std::endl\<close>\<close>

definition fstream_put_line :: "string \<Rightarrow> fstream \<Rightarrow> (string \<Rightarrow> node) \<Rightarrow> (string \<Rightarrow> node)" where
  "fstream_put_line msg f fs =
     (case fd f of
        None \<Rightarrow> fs
      | Some path \<Rightarrow>
          if failbit f then fs
          else (case fs path of File c \<Rightarrow> fs(path := File (c @ msg @ endl)) | _ \<Rightarrow> fs))"

section \<open>Objects and the world they live in\<close>

text \<open>
  A trace function is the class's own \<^verbatim>\<open>PrintMessage\<close> or a function of the caller,
  which is given the message and is told whether it received a file; of a caller's
  function only the returned code is modelled.
\<close>

datatype memtracefunc = PrintMessage_ptr | User_trace "string \<Rightarrow> bool \<Rightarrow> MEMERR"

record MemTrace =
  traceLog :: bool
  traceFunc :: "memtracefunc option"
  traceFile :: fstream
  filePath :: string

datatype memcallbackfunc = CallbackFunc_ptr | User_callback "MEMCALL \<Rightarrow> size_t \<Rightarrow> MEMERR"

text \<open>
  The member \<^verbatim>\<open>callback\<close> of MemCallback is named \<open>in_callback\<close> here, after the
  constructor's parameter, since MemHeap has a member \<^verbatim>\<open>callback\<close> of its own.
\<close>

record MemCallback =
  callbackInit :: bool
  traceClass :: "nat option"
  in_callback :: "memcallbackfunc option"

text \<open>
  An object handed out by the arena is named by the index of its page in the page
  table and its offset in that page.
\<close>

type_synonym addr = "size_t \<times> size_t"

text \<open>
  The world outside one arena: the file system and the console, the three counters
  that MemCallback declares \<^verbatim>\<open>static inline\<close> (one copy for the whole class), the
  MemTrace and MemCallback objects by address, the addresses at which an object is
  currently alive, and the free store as far as the arena uses it: the indices of the
  pages whose buffer has been obtained by \<^verbatim>\<open>new uint8_t[]\<close> and not given back.
\<close>

record world =
  fsys :: "string \<Rightarrow> node"
  console :: string
  allocs :: uint32_t
  deallocs :: uint32_t
  memInUse :: size_t
  traces :: "nat \<Rightarrow> MemTrace option"
  sinks :: "nat \<Rightarrow> MemCallback option"
  objects :: "addr set"
  buffers :: "size_t set"

section \<open>MemTrace\<close>

definition PrintMessage :: "string \<Rightarrow> fstream option \<Rightarrow> world \<Rightarrow> MEMERR \<times> world" where
  "PrintMessage msg file w =
     (case file of
        None \<Rightarrow> (MEMERR_NO_ERR, w\<lparr>console := console w @ msg @ endl\<rparr>)
      | Some f \<Rightarrow> (MEMERR_NO_ERR, w\<lparr>fsys := fstream_put_line msg f (fsys w)\<rparr>))"

text \<open>
  A call through a trace function pointer; \<open>None\<close> is the call through a null pointer,
  which does not return.
\<close>

definition call_tracefunc ::
  "memtracefunc option \<Rightarrow> string \<Rightarrow> fstream option \<Rightarrow> world \<Rightarrow> (MEMERR \<times> world) option" where
  "call_tracefunc fn msg file w =
     (case fn of
        None \<Rightarrow> None
      | Some PrintMessage_ptr \<Rightarrow> Some (PrintMessage msg file w)
      | Some (User_trace g) \<Rightarrow> Some (g msg (file \<noteq> None), w))"

definition LogMessage :: "MemTrace \<Rightarrow> string \<Rightarrow> world \<Rightarrow> (MEMERR \<times> world) option" where
  "LogMessage t msg w =
     (if \<not> traceLog t then Some (MEMERR_UNINITALIZED, w)
      else if is_open (traceFile t) then call_tracefunc (traceFunc t) msg (Some (traceFile t)) w
      else call_tracefunc (traceFunc t) msg None w)"

definition ClearFile :: "MemTrace \<Rightarrow> world \<Rightarrow> MEMERR \<times> MemTrace \<times> world" where
  "ClearFile t w =
     (if filePath t = [] then (MEMERR_INVALID_FILE, t, w)
      else
        let f1 = (if \<not> is_open (traceFile t) then fstream_close (traceFile t) else traceFile t);
            (f2, fs2) = fstream_open (filePath t) ios_trunc f1 (fsys w)
        in if \<not> is_open f2 then (MEMERR_INVALID_FILE, t\<lparr>traceFile := f2\<rparr>, w\<lparr>fsys := fs2\<rparr>)
           else
             let f3 = fstream_close f2;
                 (f4, fs4) = fstream_open (filePath t) ios_app f3 fs2
             in if \<not> is_open f4 then (MEMERR_INVALID_FILE, t\<lparr>traceFile := f4\<rparr>, w\<lparr>fsys := fs4\<rparr>)
                else (MEMERR_NO_ERR, t\<lparr>traceFile := f4\<rparr>, w\<lparr>fsys := fs4\<rparr>))"

text \<open>
  The constructor, with the value left in \<^verbatim>\<open>*error\<close> as the second component of the
  result.
\<close>

definition MemTrace_ctor ::
  "string \<Rightarrow> bool \<Rightarrow> MEMERR option \<Rightarrow> memtracefunc option \<Rightarrow> world
     \<Rightarrow> MemTrace \<times> MEMERR option \<times> world" where
  "MemTrace_ctor tracePath clearContents error newTraceFunc w =
     (let t0 = \<lparr>traceLog = False, traceFunc = newTraceFunc, traceFile = closed_stream,
                filePath = tracePath\<rparr>;
          e1 = (if newTraceFunc = None then set_error error MEMERR_INVALID_FUNCTION_PARAMETER
                else error);
          t1 = t0\<lparr>traceLog := True\<rparr>
      in if tracePath = [] then (t1, set_error e1 MEMERR_NO_ERR, w)
         else
           let (t2, w2) =
                 (if clearContents then (case ClearFile t1 w of (_, t', w') \<Rightarrow> (t', w'))
                  else (case fstream_open tracePath ios_app (traceFile t1) (fsys w) of
                          (f, fs) \<Rightarrow> (t1\<lparr>traceFile := f\<rparr>, w\<lparr>fsys := fs\<rparr>)));
               (t3, e3) =
                 (if \<not> is_open (traceFile t2)
                  then (t2\<lparr>traceLog := False\<rparr>, set_error e1 MEMERR_INVALID_FILE)
                  else (t2, e1))
           in (t3, set_error e3 MEMERR_NO_ERR, w2))"

definition GetFile :: "MemTrace \<Rightarrow> MEMERR option \<Rightarrow> fstream option \<times> MEMERR option" where
  "GetFile t error =
     (if \<not> is_open (traceFile t) then (None, set_error error MEMERR_INVALID_FILE)
      else (Some (traceFile t), set_error error MEMERR_NO_ERR))"

section \<open>MemCallback\<close>

text \<open>\<^verbatim>\<open>std::to_string\<close> on an unsigned value: its decimal digits.\<close>

fun to_string :: "nat \<Rightarrow> string" where
  "to_string n =
     (if n < 10 then [char_of (48 + n)]
      else to_string (n div 10) @ [char_of (48 + n mod 10)])"

declare to_string.simps [simp del]

text \<open>
  The default callback. The counters it updates are the class's static members, so
  they are fields of the world and not of any MemCallback object. A pointer that names
  no MemTrace object is followed into undefined behaviour (\<open>None\<close>). The result of
  \<^verbatim>\<open>LogMessage\<close> is dropped.
\<close>

definition CallbackFunc ::
  "MEMCALL \<Rightarrow> size_t \<Rightarrow> nat option \<Rightarrow> world \<Rightarrow> (MEMERR \<times> world) option" where
  "CallbackFunc msg memSize traceCall w =
     (let (traceMsg, w1) =
            (case msg of
               MEMCALL_ALLOC \<Rightarrow>
                 (''Allocating Memory of size: '' @ to_string (unat memSize),
                  w\<lparr>allocs := allocs w + 1, memInUse := memInUse w + memSize\<rparr>)
             | MEMCALL_DEALLOC \<Rightarrow>
                 (''Deallocating Memory of size: '' @ to_string (unat memSize),
                  w\<lparr>deallocs := deallocs w + 1, memInUse := memInUse w - memSize\<rparr>)
             | MEMCALL_MEM_ERR \<Rightarrow>
                 (''Error Allocating Memory of size: '' @ to_string (unat memSize), w)
             | MEMCALL_INVALID_MEM \<Rightarrow>
                 (''Error Accessing Memory of size: '' @ to_string (unat memSize), w))
      in case traceCall of
           None \<Rightarrow> Some (MEMERR_NO_ERR, w1)
         | Some j \<Rightarrow>
             (case traces w1 j of
                None \<Rightarrow> None
              | Some t \<Rightarrow>
                  (case LogMessage t traceMsg w1 of
                     None \<Rightarrow> None
                   | Some (_, w2) \<Rightarrow> Some (MEMERR_NO_ERR, w2))))"

text \<open>
  A call through a callback pointer; \<open>None\<close> is the call through a null pointer. Of a
  caller's own callback only the returned code is modelled.
\<close>

definition call_callback ::
  "memcallbackfunc option \<Rightarrow> MEMCALL \<Rightarrow> size_t \<Rightarrow> nat option \<Rightarrow> world
     \<Rightarrow> (MEMERR \<times> world) option" where
  "call_callback fn msg memSize traceCall w =
     (case fn of
        None \<Rightarrow> None
      | Some CallbackFunc_ptr \<Rightarrow> CallbackFunc msg memSize traceCall w
      | Some (User_callback g) \<Rightarrow> Some (g msg memSize, w))"

text \<open>
  The constructor writes \<^verbatim>\<open>callbackInit\<close> only when the callback is not null; otherwise
  the member keeps what its storage held, \<open>indet\<close>.
\<close>

definition MemCallback_ctor ::
  "bool \<Rightarrow> nat option \<Rightarrow> memcallbackfunc option \<Rightarrow> MEMERR option
     \<Rightarrow> MemCallback \<times> MEMERR option" where
  "MemCallback_ctor indet in_traceClass in_cb error =
     (if in_cb \<noteq> None
      then (\<lparr>callbackInit = True, traceClass = in_traceClass, in_callback = in_cb\<rparr>, error)
      else (\<lparr>callbackInit = indet, traceClass = in_traceClass, in_callback = in_cb\<rparr>,
            set_error error MEMERR_INVALID_FUNCTION_PARAMETER))"

definition PerformCallback ::
  "MemCallback \<Rightarrow> MEMCALL \<Rightarrow> size_t \<Rightarrow> world \<Rightarrow> (MEMERR \<times> world) option" where
  "PerformCallback c msg memSize w =
     (if callbackInit c then call_callback (in_callback c) msg memSize (traceClass c) w
      else Some (MEMERR_UNINITALIZED, w))"

text \<open>
  \<^verbatim>\<open>sink->PerformCallback(msg, memSize)\<close> on the MemCallback object at address \<open>i\<close>.
\<close>

definition PerformCallback_at ::
  "nat \<Rightarrow> MEMCALL \<Rightarrow> size_t \<Rightarrow> world \<Rightarrow> (MEMERR \<times> world) option" where
  "PerformCallback_at i msg memSize w =
     (case sinks w i of None \<Rightarrow> None | Some c \<Rightarrow> PerformCallback c msg memSize w)"

section \<open>MemHeap\<close>

text \<open>
  The page table maps an index to the capacity of the buffer whose pointer was stored
  there, \<open>None\<close> where the code has stored none. The model does not track the length of
  the table, nor whether a placement stays inside its page or in a page that is still
  held: the code checks none of these.
\<close>

record MemHeap =
  heapInitalized :: bool
  memFlags :: uint8_t
  callback :: "nat option"
  allignment :: size_t
  pageSize :: size_t
  numOfPages :: size_t
  maxPages :: size_t
  maxPageSize :: size_t
  currentPage :: "size_t option"
  pages :: "size_t \<Rightarrow> size_t option"

text \<open>How a \<^verbatim>\<open>new\<close> expression, or the constructor it runs, ends.\<close>

datatype new_outcome = new_ok | throws_bad_alloc | throws_exception

text \<open>
  The constructor initialises three members; the others keep what the storage of the
  object held, \<open>indet\<close>.
\<close>

definition MemHeap_ctor :: "MemHeap \<Rightarrow> MemHeap" where
  "MemHeap_ctor indet = indet\<lparr>heapInitalized := False, memFlags := 0, callback := None\<rparr>"

text \<open>
  The handlers' \<^verbatim>\<open>MEMERR error = MEMERR_NO_ERR; if(callback) { error =
  callback->PerformCallback(msg, size); }\<close>
\<close>

definition report ::
  "nat option \<Rightarrow> MEMCALL \<Rightarrow> size_t \<Rightarrow> world \<Rightarrow> (MEMERR \<times> world) option" where
  "report cb msg memSize w =
     (case cb of
        None \<Rightarrow> Some (MEMERR_NO_ERR, w)
      | Some i \<Rightarrow> PerformCallback_at i msg memSize w)"

text \<open>\<^verbatim>\<open>sizeof(maxPageSize)\<close> and \<^verbatim>\<open>sizeof(numOfPages)\<close>\<close>

definition sizeof_size_t :: size_t where
  "sizeof_size_t = 8"

definition AllocatePage ::
  "new_outcome \<Rightarrow> MemHeap \<Rightarrow> world \<Rightarrow> (MEMERR \<times> MemHeap \<times> world) option" where
  "AllocatePage page_new h w =
     (let h1 = h\<lparr>numOfPages := numOfPages h + 1\<rparr>
      in if numOfPages h1 > maxPages h1
         then Some (MEMERR_OUT_OF_MEM, h1\<lparr>numOfPages := numOfPages h1 - 1\<rparr>, w)
         else
           (case page_new of
              new_ok \<Rightarrow>
                Some (MEMERR_NO_ERR,
                      h1\<lparr>pages := (pages h1)(numOfPages h1 - 1 \<mapsto> maxPageSize h1)\<rparr>,
                      w\<lparr>buffers := insert (numOfPages h1 - 1) (buffers w)\<rparr>)
            | throws_bad_alloc \<Rightarrow>
                (case report (callback h1) MEMCALL_MEM_ERR sizeof_size_t w of
                   None \<Rightarrow> None
                 | Some (error, w') \<Rightarrow>
                     if error \<noteq> MEMERR_NO_ERR then Some (error, h1, w')
                     else Some (MEMERR_OUT_OF_MEM, h1\<lparr>numOfPages := numOfPages h1 - 1\<rparr>, w'))
            | throws_exception \<Rightarrow>
                (case report (callback h1) MEMCALL_MEM_ERR sizeof_size_t w of
                   None \<Rightarrow> None
                 | Some (error, w') \<Rightarrow>
                     if error \<noteq> MEMERR_NO_ERR then Some (error, h1, w')
                     else Some (MEMERR_UNKNOWN, h1\<lparr>numOfPages := numOfPages h1 - 1\<rparr>, w'))))"

definition AllocatePagePtrs ::
  "new_outcome \<Rightarrow> MemHeap \<Rightarrow> world \<Rightarrow> (MEMERR \<times> MemHeap \<times> world) option" where
  "AllocatePagePtrs ptrs_new h w =
     (case ptrs_new of
        new_ok \<Rightarrow> Some (MEMERR_NO_ERR, h\<lparr>pages := (\<lambda>_. None)\<rparr>, w)
      | throws_bad_alloc \<Rightarrow>
          (case report (callback h) MEMCALL_MEM_ERR sizeof_size_t w of
             None \<Rightarrow> None
           | Some (error, w') \<Rightarrow>
               if error \<noteq> MEMERR_NO_ERR then Some (error, h, w')
               else Some (MEMERR_OUT_OF_MEM, h, w'))
      | throws_exception \<Rightarrow>
          (case report (callback h) MEMCALL_MEM_ERR sizeof_size_t w of
             None \<Rightarrow> None
           | Some (error, w') \<Rightarrow>
               if error \<noteq> MEMERR_NO_ERR then Some (error, h, w')
               else Some (MEMERR_NO_ERR, h, w')))"

definition InitalizeHeapMem ::
  "size_t \<Rightarrow> size_t \<Rightarrow> size_t \<Rightarrow> nat option \<Rightarrow> new_outcome \<Rightarrow> new_outcome \<Rightarrow> MemHeap \<Rightarrow> world
     \<Rightarrow> (MEMERR \<times> MemHeap \<times> world) option" where
  "InitalizeHeapMem in_pageSize in_numOfPages in_allignment callbackClass ptrs_new page_new h w =
     (case AllocatePagePtrs ptrs_new h w of
        None \<Rightarrow> None
      | Some (error, h1, w1) \<Rightarrow>
          if error \<noteq> MEMERR_NO_ERR then Some (error, h1, w1)
          else
            (case AllocatePage page_new h1 w1 of
               None \<Rightarrow> None
             | Some (error2, h2, w2) \<Rightarrow>
                 if error2 \<noteq> MEMERR_NO_ERR then Some (error2, h2, w2)
                 else
                   let h3 = h2\<lparr>heapInitalized := True, maxPageSize := in_pageSize,
                               maxPages := in_numOfPages, allignment := in_allignment,
                               currentPage := pages h2 (numOfPages h2 - 1), pageSize := 0\<rparr>;
                       h4 = (if callbackClass \<noteq> None then h3\<lparr>callback := callbackClass\<rparr>
                             else h3)
                   in Some (MEMERR_NO_ERR, h4, w2)))"

definition TerminateHeapMem :: "MemHeap \<Rightarrow> MEMERR \<times> MemHeap" where
  "TerminateHeapMem h = (MEMERR_NO_ERR, h\<lparr>heapInitalized := False, callback := None\<rparr>)"

text \<open>
  \<^verbatim>\<open>sizeof(T) + (sizeof(T) % allignment)\<close>; the remainder by zero traps (\<open>None\<close>).
\<close>

definition objPageSize :: "size_t \<Rightarrow> size_t \<Rightarrow> size_t option" where
  "objPageSize sizeofT allign =
     (if allign = 0 then None else Some (sizeofT + (sizeofT mod allign)))"

text \<open>
  \<^verbatim>\<open>Allocate<T>(p_Obj)\<close>, with \<^verbatim>\<open>sizeof(T)\<close>, the slot's value, the way a page
  allocation would end and the way \<^verbatim>\<open>T\<close>'s constructor ends. The result carries the new
  value of the slot. The result of \<^verbatim>\<open>AllocatePage\<close> is dropped, as in the source.
\<close>

definition Allocate ::
  "size_t \<Rightarrow> addr option \<Rightarrow> new_outcome \<Rightarrow> new_outcome \<Rightarrow> MemHeap \<Rightarrow> world
     \<Rightarrow> (MEMERR \<times> addr option \<times> MemHeap \<times> world) option" where
  "Allocate sizeofT p_Obj page_new ctor h w =
     (case objPageSize sizeofT (allignment h) of
        None \<Rightarrow> None
      | Some ops \<Rightarrow>
          (case (if ops < pageSize h then map_option snd (AllocatePage page_new h w)
                 else Some (h, w)) of
             None \<Rightarrow> None
           | Some (h1, w1) \<Rightarrow>
               if memFlags h1 AND MEMFLAGS_OVERRIDE_DOUBLE_ALLOC = 0 \<and> p_Obj \<noteq> None
               then Some (MEMERR_DOUBLE_ALLOC, p_Obj, h1, w1)
               else
                 (case ctor of
                    new_ok \<Rightarrow>
                      let a = (numOfPages h1 - 1, pageSize h1);
                          h2 = h1\<lparr>pageSize := pageSize h1 + ops\<rparr>;
                          w2 = w1\<lparr>objects := insert a (objects w1)\<rparr>
                      in if memFlags h2 AND MEMFLAGS_DISABLE_DEBUG_MSG = 0 \<and> callback h2 \<noteq> None
                         then
                           (case report (callback h2) MEMCALL_ALLOC sizeofT w2 of
                              None \<Rightarrow> None
                            | Some (error, w3) \<Rightarrow>
                                if error \<noteq> MEMERR_NO_ERR then Some (error, Some a, h2, w3)
                                else Some (MEMERR_NO_ERR, Some a, h2, w3))
                         else Some (MEMERR_NO_ERR, Some a, h2, w2)
                  | throws_bad_alloc \<Rightarrow>
                      (case report (callback h1) MEMCALL_MEM_ERR sizeofT w1 of
                         None \<Rightarrow> None
                       | Some (error, w2) \<Rightarrow>
                           if error \<noteq> MEMERR_NO_ERR then Some (error, p_Obj, h1, w2)
                           else Some (MEMERR_OUT_OF_MEM, p_Obj, h1, w2))
                  | throws_exception \<Rightarrow>
                      (case report (callback h1) MEMCALL_MEM_ERR sizeofT w1 of
                         None \<Rightarrow> None
                       | Some (error, w2) \<Rightarrow>
                           if error \<noteq> MEMERR_NO_ERR then Some (error, p_Obj, h1, w2)
                           else Some (MEMERR_UNKNOWN, p_Obj, h1, w2)))))"

text \<open>
  \<^verbatim>\<open>delete p_Obj\<close> on a handle of the arena. The handle points into a page that
  \<^verbatim>\<open>AllocatePage\<close> obtained by \<^verbatim>\<open>new uint8_t[]\<close>, so after the destructor the pointer
  goes to the free store as it is: at offset 0 of a page whose buffer is still held,
  the whole buffer is given back, under the arena, which keeps the pointer in its
  table; at any other offset, or on a buffer that is not held (a second \<^verbatim>\<open>delete\<close>),
  the free store is handed a pointer it never gave out and the program is aborted
  (\<open>None\<close>). An address stays in \<open>objects\<close> until \<^verbatim>\<open>delete\<close> has run on it; whether its page
  is still there is told by \<open>buffers\<close>.
\<close>

definition delete_obj :: "addr \<Rightarrow> world \<Rightarrow> world option" where
  "delete_obj a w =
     (if snd a = 0
      then (if fst a \<in> buffers w
            then Some (w\<lparr>objects := objects w - {a}, buffers := buffers w - {fst a}\<rparr>)
            else None)
      else None)"

text \<open>\<^verbatim>\<open>Deallocate<T>(p_Obj)\<close>; the result carries the new value of the handle.\<close>

definition Deallocate ::
  "size_t \<Rightarrow> addr option \<Rightarrow> MemHeap \<Rightarrow> world \<Rightarrow> (MEMERR \<times> addr option \<times> MemHeap \<times> world) option" where
  "Deallocate sizeofT p_Obj h w =
     (case p_Obj of
        None \<Rightarrow>
          (case report (callback h) MEMCALL_INVALID_MEM sizeofT w of
             None \<Rightarrow> None
           | Some (error, w') \<Rightarrow>
               if error \<noteq> MEMERR_NO_ERR then Some (error, None, h, w')
               else Some (MEMERR_INVALID_MEM, None, h, w'))
      | Some a \<Rightarrow>
          (case (if memFlags h AND MEMFLAGS_DISABLE_DEBUG_MSG = 0 \<and> callback h \<noteq> None
                 then report (callback h) MEMCALL_DEALLOC sizeofT w
                 else Some (MEMERR_NO_ERR, w)) of
             None \<Rightarrow> None
           | Some (error, w') \<Rightarrow>
               (case delete_obj a w' of
                  None \<Rightarrow> None
                | Some w'' \<Rightarrow> Some (MEMERR_NO_ERR, None, h, w''))))"

section \<open>A program's use of one arena\<close>



section \<open>What the specification calls the padded size\<close>

text \<open>
  Following the specification's words, not the source: the native size rounded up to
  the next multiple of the alignment (a size that is a multiple already stays as it is).
\<close>

definition padded_size_spec :: "nat \<Rightarrow> nat \<Rightarrow> nat" where
  "padded_size_spec n a = ((n + a - 1) div a) * a"

section \<open>Reading the counters through a sink\<close>

text \<open>
  \<^verbatim>\<open>allocs\<close>, \<^verbatim>\<open>deallocs\<close> and \<^verbatim>\<open>memInUse\<close> are static members of MemCallback, so
  \<^verbatim>\<open>sink.allocs\<close> names the same variable for every object of the class. \<open>counters_of w i\<close>
  is what the three members read through the MemCallback object at address \<open>i\<close>.
\<close>

definition counters_of :: "world \<Rightarrow> nat \<Rightarrow> (uint32_t \<times> uint32_t \<times> size_t) option" where
  "counters_of w i =
     (case sinks w i of None \<Rightarrow> None | Some _ \<Rightarrow> Some (allocs w, deallocs w, memInUse w))"

section \<open>Concrete worlds and arenas\<close>

text \<open>
  An empty world: no file, nothing on the console, counters at zero, no object, no
  page buffer.
\<close>

definition world0 :: world where
  "world0 = \<lparr>fsys = (\<lambda>_. Absent), console = [], allocs = 0, deallocs = 0, memInUse = 0,
             traces = (\<lambda>_. None), sinks = (\<lambda>_. None), objects = {}, buffers = {}\<rparr>"

text \<open>
  What the storage of an arena holds before the constructor runs. \<^verbatim>\<open>InitalizeHeapMem\<close>
  reads \<^verbatim>\<open>numOfPages\<close>, \<^verbatim>\<open>maxPages\<close> and \<^verbatim>\<open>maxPageSize\<close> before it writes them, and the
  constructor does not write them either, so the first page is accepted and sized by
  what the storage held. \<open>storage0\<close> holds the values under which a first
  \<^verbatim>\<open>InitalizeHeapMem(64, 2, 8)\<close> succeeds with a first page of 64 bytes.
\<close>

definition storage0 :: MemHeap where
  "storage0 = \<lparr>heapInitalized = False, memFlags = 0, callback = None, allignment = 0,
                pageSize = 0, numOfPages = 0, maxPages = 2, maxPageSize = 64,
                currentPage = None, pages = (\<lambda>_. None)\<rparr>"

text \<open>The arena that \<^verbatim>\<open>InitalizeHeapMem(64, 2, 8)\<close> leaves, with no sink.\<close>

definition arena_64_2_8 :: MemHeap where
  "arena_64_2_8 = \<lparr>heapInitalized = True, memFlags = 0, callback = None, allignment = 8,
                    pageSize = 0, numOfPages = 1, maxPages = 2, maxPageSize = 64,
                    currentPage = Some 64, pages = (\<lambda>_. None)(0 \<mapsto> 64)\<rparr>"

text \<open>Two sinks with the default callback and no trace log, at addresses 0 and 1.\<close>

definition two_sinks :: world where
  "two_sinks = world0\<lparr>sinks :=
      (\<lambda>_. None)(0 \<mapsto> fst (MemCallback_ctor False None (Some CallbackFunc_ptr) None),
                  1 \<mapsto> fst (MemCallback_ctor False None (Some CallbackFunc_ptr) None))\<rparr>"

text \<open>
  Two sinks with the default callback; the one at address 0 forwards to a trace log
  that writes to the console.
\<close>

definition logging_sinks :: world where
  "logging_sinks = world0\<lparr>
      traces := (\<lambda>_. None)(0 \<mapsto> fst (MemTrace_ctor [] False None (Some PrintMessage_ptr) world0)),
      sinks := (\<lambda>_. None)(0 \<mapsto> fst (MemCallback_ctor False (Some 0) (Some CallbackFunc_ptr) None),
                           1 \<mapsto> fst (MemCallback_ctor False None (Some CallbackFunc_ptr) None))\<rparr>"


text \<open>A world whose only file is the trace file, with one line in it.\<close>

definition old_trace_file :: world where
  "old_trace_file = world0\<lparr>fsys := (\<lambda>_. Absent)(''log/Trace.txt'' := File (''old'' @ endl))\<rparr>"

text \<open>A world in which no path can be opened for writing.\<close>

definition no_access :: world where
  "no_access = world0\<lparr>fsys := (\<lambda>_. NoAccess)\<rparr>"



text \<open>
  A sink with the default callback over a trace log that was constructed with a null
  trace function; the constructor enables logging all the same.
\<close>

definition null_trace_sink :: world where
  "null_trace_sink = world0\<lparr>
      traces := (\<lambda>_. None)(0 \<mapsto> fst (MemTrace_ctor [] False None None world0)),
      sinks := (\<lambda>_. None)(0 \<mapsto> fst (MemCallback_ctor False (Some 0) (Some CallbackFunc_ptr) None))\<rparr>"

section \<open>Properties of the trace log\<close>

lemmas trace_defs = MemTrace_ctor_def ClearFile_def LogMessage_def call_tracefunc_def
  PrintMessage_def fstream_put_line_def fstream_close_def fstream_open_def is_open_def
  closed_stream_def set_error_def Let_def

text \<open>Whatever happens in the constructor, the value left in \<^verbatim>\<open>*error\<close> is \<open>MEMERR_NO_ERR\<close>.\<close>

lemma MemTrace_ctor_error:
  "fst (snd (MemTrace_ctor tracePath clearContents error newTraceFunc w)) = set_error error MEMERR_NO_ERR"
  by (auto simp: MemTrace_ctor_def Let_def set_error_def split: prod.splits option.splits)

text \<open>
  \<^verbatim>\<open>ClearFile\<close> on a log whose stream is open on its file leaves the file as it is;
  on a log whose stream is closed it empties the file.
\<close>

lemma ClearFile_open_keeps_contents:
  assumes "filePath t \<noteq> []" and "fd (traceFile t) = Some (filePath t)"
    and "fsys w (filePath t) = File c"
  shows "ClearFile t w = (MEMERR_NO_ERR, t\<lparr>traceFile := \<lparr>fd = Some (filePath t), failbit = False\<rparr>\<rparr>, w)"
  using assms
  by (simp add: ClearFile_def is_open_def fstream_open_def fstream_close_def Let_def fun_upd_idem)

lemma ClearFile_closed_truncates:
  assumes "filePath t \<noteq> []" and "fd (traceFile t) = None"
    and "fsys w (filePath t) = File c"
  shows "ClearFile t w = (MEMERR_NO_ERR, t\<lparr>traceFile := \<lparr>fd = Some (filePath t), failbit = False\<rparr>\<rparr>,
                          w\<lparr>fsys := (fsys w)(filePath t := File [])\<rparr>)"
  using assms
  by (simp add: ClearFile_def is_open_def fstream_open_def fstream_close_def Let_def fun_upd_idem)

text \<open>What \<^verbatim>\<open>LogMessage\<close> leaves alone, and when it traps.\<close>

lemma LogMessage_frame:
  assumes "LogMessage t m w = Some (e, w')"
  shows "allocs w' = allocs w \<and> deallocs w' = deallocs w \<and> memInUse w' = memInUse w
       \<and> traces w' = traces w \<and> sinks w' = sinks w \<and> objects w' = objects w
       \<and> buffers w' = buffers w"
  using assms
  by (auto simp: LogMessage_def call_tracefunc_def PrintMessage_def
      split: if_splits option.splits memtracefunc.splits)

lemma LogMessage_traps:
  "(LogMessage t m w = None) = (traceLog t \<and> traceFunc t = None)"
  by (auto simp: LogMessage_def call_tracefunc_def split: option.splits memtracefunc.splits)

section \<open>Properties of the sink\<close>

text \<open>
  The default callback in one shape for all four events: a message \<open>m\<close> and the world
  \<open>w1\<close> with the counters updated.
\<close>

lemma CallbackFunc_shape:
  "\<exists>m w1. CallbackFunc msg n tc w =
            (case tc of
               None \<Rightarrow> Some (MEMERR_NO_ERR, w1)
             | Some j \<Rightarrow>
                 (case traces w1 j of
                    None \<Rightarrow> None
                  | Some t \<Rightarrow>
                      (case LogMessage t m w1 of
                         None \<Rightarrow> None
                       | Some (_, w2) \<Rightarrow> Some (MEMERR_NO_ERR, w2))))
         \<and> traces w1 = traces w \<and> sinks w1 = sinks w \<and> objects w1 = objects w
         \<and> buffers w1 = buffers w
         \<and> (allocs w1, deallocs w1, memInUse w1) =
             (case msg of
                MEMCALL_ALLOC \<Rightarrow> (allocs w + 1, deallocs w, memInUse w + n)
              | MEMCALL_DEALLOC \<Rightarrow> (allocs w, deallocs w + 1, memInUse w - n)
              | MEMCALL_MEM_ERR \<Rightarrow> (allocs w, deallocs w, memInUse w)
              | MEMCALL_INVALID_MEM \<Rightarrow> (allocs w, deallocs w, memInUse w))"
proof (cases msg)
  case MEMCALL_ALLOC
  show ?thesis
    unfolding CallbackFunc_def MEMCALL_ALLOC
    by (rule exI [of _ "''Allocating Memory of size: '' @ to_string (unat n)"],
        rule exI [of _ "w\<lparr>allocs := allocs w + 1, memInUse := memInUse w + n\<rparr>"]) (simp cong: option.case_cong)
next
  case MEMCALL_DEALLOC
  show ?thesis
    unfolding CallbackFunc_def MEMCALL_DEALLOC
    by (rule exI [of _ "''Deallocating Memory of size: '' @ to_string (unat n)"],
        rule exI [of _ "w\<lparr>deallocs := deallocs w + 1, memInUse := memInUse w - n\<rparr>"]) (simp cong: option.case_cong)
next
  case MEMCALL_MEM_ERR
  show ?thesis
    unfolding CallbackFunc_def MEMCALL_MEM_ERR
    by (rule exI [of _ "''Error Allocating Memory of size: '' @ to_string (unat n)"],
        rule exI [of _ w]) (simp cong: option.case_cong)
next
  case MEMCALL_INVALID_MEM
  show ?thesis
    unfolding CallbackFunc_def MEMCALL_INVALID_MEM
    by (rule exI [of _ "''Error Accessing Memory of size: '' @ to_string (unat n)"],
        rule exI [of _ w]) (simp cong: option.case_cong)
qed

lemma CallbackFunc_frame:
  assumes "CallbackFunc msg n tc w = Some (e, w')"
  shows "e = MEMERR_NO_ERR \<and> traces w' = traces w \<and> sinks w' = sinks w \<and> objects w' = objects w
       \<and> buffers w' = buffers w"
proof -
  from CallbackFunc_shape [of msg n tc w] obtain m w1 where
    s: "CallbackFunc msg n tc w =
            (case tc of
               None \<Rightarrow> Some (MEMERR_NO_ERR, w1)
             | Some j \<Rightarrow>
                 (case traces w1 j of
                    None \<Rightarrow> None
                  | Some t \<Rightarrow>
                      (case LogMessage t m w1 of
                         None \<Rightarrow> None
                       | Some (_, w2) \<Rightarrow> Some (MEMERR_NO_ERR, w2))))"
    and f: "traces w1 = traces w" "sinks w1 = sinks w" "objects w1 = objects w"
      "buffers w1 = buffers w"
    by blast
  from assms s f show ?thesis
    by (auto split: option.splits dest!: LogMessage_frame)
qed

lemma CallbackFunc_counters:
  assumes "CallbackFunc msg n tc w = Some (e, w')"
  shows "(allocs w', deallocs w', memInUse w') =
     (case msg of
        MEMCALL_ALLOC \<Rightarrow> (allocs w + 1, deallocs w, memInUse w + n)
      | MEMCALL_DEALLOC \<Rightarrow> (allocs w, deallocs w + 1, memInUse w - n)
      | MEMCALL_MEM_ERR \<Rightarrow> (allocs w, deallocs w, memInUse w)
      | MEMCALL_INVALID_MEM \<Rightarrow> (allocs w, deallocs w, memInUse w))"
proof -
  from CallbackFunc_shape [of msg n tc w] obtain m w1 where
    s: "CallbackFunc msg n tc w =
            (case tc of
               None \<Rightarrow> Some (MEMERR_NO_ERR, w1)
             | Some j \<Rightarrow>
                 (case traces w1 j of
                    None \<Rightarrow> None
                  | Some t \<Rightarrow>
                      (case LogMessage t m w1 of
                         None \<Rightarrow> None
                       | Some (_, w2) \<Rightarrow> Some (MEMERR_NO_ERR, w2))))"
    and c: "(allocs w1, deallocs w1, memInUse w1) =
             (case msg of
                MEMCALL_ALLOC \<Rightarrow> (allocs w + 1, deallocs w, memInUse w + n)
              | MEMCALL_DEALLOC \<Rightarrow> (allocs w, deallocs w + 1, memInUse w - n)
              | MEMCALL_MEM_ERR \<Rightarrow> (allocs w, deallocs w, memInUse w)
              | MEMCALL_INVALID_MEM \<Rightarrow> (allocs w, deallocs w, memInUse w))"
    by blast
  have "allocs w' = allocs w1 \<and> deallocs w' = deallocs w1 \<and> memInUse w' = memInUse w1"
    using assms s by (auto split: option.splits dest!: LogMessage_frame)
  with c show ?thesis by simp
qed

lemma case_option_pair_None:
  "((case x of None \<Rightarrow> None | Some (a, b) \<Rightarrow> Some (g a b)) = None) = (x = None)"
  by (cases x) (auto split: prod.splits)

lemma CallbackFunc_traps:
  "(CallbackFunc msg n tc w = None) =
     (case tc of None \<Rightarrow> False
      | Some j \<Rightarrow> (case traces w j of None \<Rightarrow> True | Some t \<Rightarrow> traceLog t \<and> traceFunc t = None))"
proof -
  from CallbackFunc_shape [of msg n tc w] obtain m w1 where
    s: "CallbackFunc msg n tc w =
            (case tc of
               None \<Rightarrow> Some (MEMERR_NO_ERR, w1)
             | Some j \<Rightarrow>
                 (case traces w1 j of
                    None \<Rightarrow> None
                  | Some t \<Rightarrow>
                      (case LogMessage t m w1 of
                         None \<Rightarrow> None
                       | Some (_, w2) \<Rightarrow> Some (MEMERR_NO_ERR, w2))))"
    and f: "traces w1 = traces w"
    by blast
  show ?thesis
    unfolding s f by (simp add: case_option_pair_None LogMessage_traps split: option.splits)
qed




section \<open>Properties of the arena\<close>

lemmas heap_defs = InitalizeHeapMem_def AllocatePagePtrs_def AllocatePage_def Allocate_def
  Deallocate_def delete_obj_def TerminateHeapMem_def objPageSize_def report_def MemHeap_ctor_def
  MEMFLAGS_OVERRIDE_DOUBLE_ALLOC_def MEMFLAGS_DISABLE_DEBUG_MSG_def Let_def















text \<open>
  Whether \<^verbatim>\<open>InitalizeHeapMem\<close> succeeds on a fresh arena (when no \<^verbatim>\<open>new\<close> throws) is
  decided by what the storage held: the page budget the first \<^verbatim>\<open>AllocatePage\<close> compares
  with is the one found there, not the one requested. In zeroed storage it fails.
\<close>

lemma InitalizeHeapMem_succeeds_iff:
  "map_option fst (InitalizeHeapMem in_pageSize in_numOfPages in_allignment cb new_ok new_ok
            (MemHeap_ctor indet) w)
     = Some (if numOfPages indet + 1 > maxPages indet then MEMERR_OUT_OF_MEM else MEMERR_NO_ERR)"
  by (simp add: InitalizeHeapMem_def AllocatePagePtrs_def AllocatePage_def MemHeap_ctor_def Let_def)

lemma InitalizeHeapMem_zeroed_storage:
  assumes "numOfPages indet = 0" and "maxPages indet = 0"
  shows "map_option fst (InitalizeHeapMem in_pageSize in_numOfPages in_allignment cb new_ok new_ok
            (MemHeap_ctor indet) w) = Some MEMERR_OUT_OF_MEM"
  using assms by (simp add: InitalizeHeapMem_succeeds_iff)

text \<open>How the concrete arenas come about.\<close>

lemma arena_64_2_8_reached:
  "InitalizeHeapMem 64 2 8 None new_ok new_ok (MemHeap_ctor storage0) w
     = Some (MEMERR_NO_ERR, arena_64_2_8, w\<lparr>buffers := insert 0 (buffers w)\<rparr>)"
  by (simp add: heap_defs storage0_def arena_64_2_8_def)

lemma arena_with_sink_reached:
  "InitalizeHeapMem 64 2 8 (Some i) new_ok new_ok (MemHeap_ctor storage0) w
     = Some (MEMERR_NO_ERR, arena_64_2_8\<lparr>callback := Some i\<rparr>,
             w\<lparr>buffers := insert 0 (buffers w)\<rparr>)"
  by (simp add: heap_defs storage0_def arena_64_2_8_def)

text \<open>
  Without a sink: the page count after \<^verbatim>\<open>Allocate\<close>, the offset after a placement, and
  the codes that can come back. Neither \<^verbatim>\<open>maxPageSize\<close> nor \<^verbatim>\<open>heapInitalized\<close> is read.
\<close>

lemma Allocate_numOfPages:
  assumes "allignment h \<noteq> 0" and "callback h = None"
    and "Allocate sizeofT p_Obj page_new ctor h w = Some (e, p', h', w')"
  shows "numOfPages h' =
           (if sizeofT + sizeofT mod allignment h < pageSize h
               \<and> \<not> numOfPages h + 1 > maxPages h \<and> page_new = new_ok
            then numOfPages h + 1 else numOfPages h)"
  using assms
  by (cases page_new; cases ctor)
     (auto simp: Allocate_def objPageSize_def AllocatePage_def report_def Let_def split: if_splits)

lemma Allocate_pageSize:
  assumes "Allocate sizeofT p_Obj page_new new_ok h w = Some (e, Some a, h', w')"
    and "p_Obj = None"
  shows "pageSize h' = pageSize h + (sizeofT + sizeofT mod allignment h) \<and> snd a = pageSize h"
  using assms
  by (cases page_new)
     (auto simp: Allocate_def objPageSize_def AllocatePage_def Let_def split: if_splits option.splits)

lemma Allocate_without_sink_not_UNINITALIZED:
  assumes "callback h = None"
    and "Allocate sizeofT p_Obj page_new ctor h w = Some (e, p', h', w')"
  shows "e \<noteq> MEMERR_UNINITALIZED"
  using assms
  by (cases page_new; cases ctor)
     (auto simp: Allocate_def objPageSize_def AllocatePage_def report_def Let_def split: if_splits option.splits)

lemma Deallocate_without_sink:
  assumes "callback h = None"
  shows "Deallocate sizeofT p_Obj h w =
           (case p_Obj of
              None \<Rightarrow> Some (MEMERR_INVALID_MEM, None, h, w)
            | Some a \<Rightarrow> map_option (\<lambda>w'. (MEMERR_NO_ERR, None, h, w')) (delete_obj a w))"
  using assms by (simp add: Deallocate_def report_def map_option_case split: option.splits)

text \<open>The second sink of \<open>logging_sinks\<close> and the trace log of the first.\<close>

lemma logging_sinks_1:
  "sinks logging_sinks 1 = Some \<lparr>callbackInit = True, traceClass = None, in_callback = Some CallbackFunc_ptr\<rparr>"
  by (simp add: logging_sinks_def MemCallback_ctor_def)

lemma logging_sinks_trace:
  "traces logging_sinks 0 = Some \<lparr>traceLog = True, traceFunc = Some PrintMessage_ptr, traceFile = closed_stream, filePath = []\<rparr>"
  by (simp add: logging_sinks_def MemTrace_ctor_def)

text \<open>
  A dispatch through the default callback over a log with a null trace function does
  not return: \<^verbatim>\<open>LogMessage\<close> calls through the null pointer.
\<close>

lemma dispatch_over_null_trace_function:
  "PerformCallback_at 0 MEMCALL_ALLOC 16 null_trace_sink = None"
  by (simp add: null_trace_sink_def world0_def PerformCallback_at_def PerformCallback_def
      MemCallback_ctor_def MemTrace_ctor_def set_error_def call_callback_def CallbackFunc_traps
      LogMessage_def call_tracefunc_def)

section \<open>The claims\<close>

subsection \<open>C1: when a page is appended\<close>

text \<open>
  C1 says that \<^verbatim>\<open>Allocate\<close> appends a page exactly when the padded size exceeds what
  is left of the current page and the page count is below \<^verbatim>\<open>maxPages\<close>, and appends
  none when the object fits. The source tests \<^verbatim>\<open>objPageSize < pageSize\<close>, the padded
  size against the bytes used. After \<^verbatim>\<open>InitalizeHeapMem(64, 2, 8)\<close> and one object of
  40 bytes (24 bytes left, one page of two): a second object of 40 bytes does not fit,
  and no page is appended (the count stays 1, the object lands at offset 40 of page 0);
  an object of 8 bytes fits, and a page is appended (the count becomes 2).
\<close>

theorem Allocate_page_test_compares_offset:
  "do { (e0, h0, w0) \<leftarrow> InitalizeHeapMem 64 2 8 None new_ok new_ok (MemHeap_ctor storage0) world0;
        (e1, p1, h1, w1) \<leftarrow> Allocate 40 None new_ok new_ok h0 w0;
        (e2, p2, h2, w2) \<leftarrow> Allocate 40 None new_ok new_ok h1 w1;
        (e3, p3, h3, w3) \<leftarrow> Allocate 8 None new_ok new_ok h1 w1;
        Some ((e0, numOfPages h0, maxPages h0, pages h0 0, pageSize h0),
              (e1, p1, numOfPages h1, pageSize h1),
              (e2, p2, numOfPages h2, pageSize h2),
              (e3, p3, numOfPages h3, pageSize h3)) }
   = Some ((MEMERR_NO_ERR, 1, 2, Some 64, 0),
           (MEMERR_NO_ERR, Some (0, 0), 1, 40),
           (MEMERR_NO_ERR, Some (0, 40), 1, 80),
           (MEMERR_NO_ERR, Some (1, 40), 2, 48))"
  by (simp add: heap_defs storage0_def world0_def)

subsection \<open>C2: the page budget\<close>

text \<open>
  C2 says that \<^verbatim>\<open>Allocate\<close> fails with OutOfMemory, placing nothing, when the object
  does not fit and the arena holds \<^verbatim>\<open>maxPages\<close> pages. In the source \<^verbatim>\<open>Allocate\<close> drops
  the code \<^verbatim>\<open>AllocatePage\<close> returns. After \<^verbatim>\<open>InitalizeHeapMem(64, 2, 8)\<close> and three
  objects of 40 bytes the arena holds 2 pages of 2 and 120 bytes are used;
  \<^verbatim>\<open>AllocatePage\<close> answers \<open>MEMERR_OUT_OF_MEM\<close> there, and a fourth \<^verbatim>\<open>Allocate\<close> of
  40 bytes returns \<open>MEMERR_NO_ERR\<close> with the object placed at offset 120 of page 1.
\<close>

theorem Allocate_drops_AllocatePage_error:
  "do { (e0, h0, w0) \<leftarrow> InitalizeHeapMem 64 2 8 None new_ok new_ok (MemHeap_ctor storage0) world0;
        (e1, p1, h1, w1) \<leftarrow> Allocate 40 None new_ok new_ok h0 w0;
        (e2, p2, h2, w2) \<leftarrow> Allocate 40 None new_ok new_ok h1 w1;
        (e3, p3, h3, w3) \<leftarrow> Allocate 40 None new_ok new_ok h2 w2;
        (ep, hp, wp) \<leftarrow> AllocatePage new_ok h3 w3;
        (e4, p4, h4, w4) \<leftarrow> Allocate 40 None new_ok new_ok h3 w3;
        Some ((e1, p1, numOfPages h1, pageSize h1),
              (e2, p2, numOfPages h2, pageSize h2),
              (e3, p3, numOfPages h3, pageSize h3),
              maxPages h3, ep,
              (e4, p4, numOfPages h4, pageSize h4), objects w4) }
   = Some ((MEMERR_NO_ERR, Some (0, 0), 1, 40),
           (MEMERR_NO_ERR, Some (0, 40), 1, 80),
           (MEMERR_NO_ERR, Some (1, 80), 2, 120),
           2, MEMERR_OUT_OF_MEM,
           (MEMERR_NO_ERR, Some (1, 120), 2, 160), {(0, 0), (0, 40), (1, 80), (1, 120)})"
  by (simp add: heap_defs storage0_def world0_def insert_commute)

subsection \<open>C3: the arena after Terminate\<close>

text \<open>
  C3 says that \<^verbatim>\<open>Allocate\<close> and \<^verbatim>\<open>Deallocate\<close> fail with Uninitialized, and do not
  act on the arena, while it is not initialised. The source writes \<^verbatim>\<open>heapInitalized\<close>
  and never reads it. After \<^verbatim>\<open>InitalizeHeapMem(64, 2, 8)\<close> and \<^verbatim>\<open>TerminateHeapMem\<close>:
  \<^verbatim>\<open>Allocate\<close> of 40 bytes returns \<open>MEMERR_NO_ERR\<close>, places the object and advances the
  offset to 40; \<^verbatim>\<open>Deallocate\<close> of a null handle returns \<open>MEMERR_INVALID_MEM\<close>, and of the
  object just placed \<open>MEMERR_NO_ERR\<close>. \<^verbatim>\<open>Deallocate\<close> of a null handle on an arena that
  was never initialised returns \<open>MEMERR_INVALID_MEM\<close> too.
\<close>

theorem Allocate_Deallocate_after_Terminate:
  "do { (e0, h0, w0) \<leftarrow> InitalizeHeapMem 64 2 8 None new_ok new_ok (MemHeap_ctor storage0) world0;
        (e1, h1) \<leftarrow> Some (TerminateHeapMem h0);
        (e2, p2, h2, w2) \<leftarrow> Allocate 40 None new_ok new_ok h1 w0;
        (e3, p3, h3, w3) \<leftarrow> Deallocate 40 None h2 w2;
        (e4, p4, h4, w4) \<leftarrow> Deallocate 40 p2 h3 w3;
        Some (heapInitalized h1, (e2, p2, pageSize h2, objects w2), e3, (e4, p4, objects w4), heapInitalized h4) }
   = Some (False, (MEMERR_NO_ERR, Some (0, 0), 40, {(0, 0)}), MEMERR_INVALID_MEM, (MEMERR_NO_ERR, None, {}), False)
   \<and> map_option fst (Deallocate 40 None (MemHeap_ctor storage0) world0) = Some MEMERR_INVALID_MEM"
  by (simp add: heap_defs storage0_def world0_def)

subsection \<open>C4: the offset and the capacity of the page\<close>

text \<open>
  C4 says that in every reachable state the used-bytes offset is at most the capacity
  of the page, and that an object is placed only where offset plus padded size is at
  most the capacity. After \<^verbatim>\<open>InitalizeHeapMem(64, 2, 8)\<close> and two objects of 40 bytes
  the second object lies at offset 40 of page 0, whose capacity is 64, and the offset
  is 80.
\<close>

theorem pageSize_exceeds_page_capacity:
  "do { (e0, h0, w0) \<leftarrow> InitalizeHeapMem 64 2 8 None new_ok new_ok (MemHeap_ctor storage0) world0;
        (e1, p1, h1, w1) \<leftarrow> Allocate 40 None new_ok new_ok h0 w0;
        (e2, p2, h2, w2) \<leftarrow> Allocate 40 None new_ok new_ok h1 w1;
        Some (e2, p2, pages h2 0, maxPageSize h2, pageSize h2, pageSize h2 \<le> maxPageSize h2) }
   = Some (MEMERR_NO_ERR, Some (0, 40), Some 64, 64, 80, False)"
  by (simp add: heap_defs storage0_def world0_def)

subsection \<open>C5: the double-allocation guard\<close>




subsection \<open>C6: the padded size\<close>

text \<open>
  C6 says that the padded size is \<^verbatim>\<open>sizeof(T)\<close> rounded up to the next multiple of
  the alignment. The source adds the remainder to the size. For 5 bytes and alignment
  8 the source reserves 10 bytes, and the next multiple of 8 is 8.
\<close>

theorem objPageSize_not_rounded_up:
  "objPageSize 5 8 = Some 10 \<and> padded_size_spec 5 8 = 8 \<and>
   do { (e0, h0, w0) \<leftarrow> InitalizeHeapMem 64 2 8 None new_ok new_ok (MemHeap_ctor storage0) world0;
        (e1, p1, h1, w1) \<leftarrow> Allocate 5 None new_ok new_ok h0 w0;
        Some (allignment h0, pageSize h0, e1, pageSize h1) }
   = Some (8, 0, MEMERR_NO_ERR, 10)"
  by (simp add: heap_defs storage0_def world0_def padded_size_spec_def)

subsection \<open>C7: a trace file that does not open\<close>

text \<open>
  C7 says that constructing a trace log on a path whose file does not end up open
  disables logging and reports InvalidFile. The constructor stores
  \<open>MEMERR_INVALID_FILE\<close> and then, with no return in between, \<open>MEMERR_NO_ERR\<close>. On a
  path that cannot be opened logging is disabled, the stream is not open and the code
  reported is \<open>MEMERR_NO_ERR\<close>.
\<close>

theorem MemTrace_ctor_unopened_file_reports_NO_ERR:
  "(case MemTrace_ctor ''log/Trace.txt'' False (Some MEMERR_UNKNOWN) (Some PrintMessage_ptr)
           no_access of
      (t, error, w) \<Rightarrow> (traceLog t, is_open (traceFile t), error))
   = (False, False, Some MEMERR_NO_ERR)"
  by (simp add: trace_defs no_access_def world0_def)

subsection \<open>C8: clearing the trace file\<close>

text \<open>
  C8 says that \<^verbatim>\<open>ClearFile\<close> closes the stream if it is open, empties the file and
  reopens it for appending, so that \<^verbatim>\<open>ClearFile\<close> and then \<^verbatim>\<open>LogMessage("X")\<close> leave
  exactly the line X in the file. The source closes the stream when it is not open.
  On a log constructed without clearing, over a file that holds the line old, the
  truncating \<^verbatim>\<open>open\<close> fails on the open stream, all three calls report
  \<open>MEMERR_NO_ERR\<close>, and the file holds the lines old and X.
\<close>

theorem ClearFile_on_open_file_keeps_contents:
  "(case MemTrace_ctor ''log/Trace.txt'' False (Some MEMERR_UNKNOWN) (Some PrintMessage_ptr)
           old_trace_file of
      (t, error, w1) \<Rightarrow>
        (case ClearFile t w1 of
           (e2, t2, w2) \<Rightarrow>
             (case LogMessage t2 ''X'' w2 of
                None \<Rightarrow> None
              | Some (e3, w3) \<Rightarrow> Some (error, e2, e3, fsys w3 ''log/Trace.txt''))))
   = Some (Some MEMERR_NO_ERR, MEMERR_NO_ERR, MEMERR_NO_ERR,
           File (''old'' @ endl @ ''X'' @ endl))"
  by (simp add: trace_defs old_trace_file_def world0_def)

subsection \<open>C9: whose counters\<close>

text \<open>
  C9, as amended: the counters belong to the class and not to a sink. An event
  dispatched through any sink that was constructed with the default callback returns
  \<open>MEMERR_NO_ERR\<close> and updates the one allocation count, deallocation count and
  bytes-in-use, and every sink, this one and any other, reads the updated values:
  an allocate event adds one to the allocation count and the size to the bytes in use,
  a deallocate event adds one to the deallocation count and subtracts the size, the
  two error events change no counter. This when the sink was given no trace log, or
  one that exists and has a trace function or has logging disabled; over any other
  log the dispatch does not return.
\<close>

theorem counters_shared_by_all_sinks:
  assumes sink: "sinks w i = Some (fst (MemCallback_ctor indet tc (Some CallbackFunc_ptr) error))"
    and tr: "tc = None \<or> (\<exists>k t. tc = Some k \<and> traces w k = Some t
                                  \<and> (traceFunc t \<noteq> None \<or> \<not> traceLog t))"
    and other: "sinks w j = Some d"
  shows "\<exists>w'. PerformCallback_at i msg n w = Some (MEMERR_NO_ERR, w')
           \<and> counters_of w' j =
               Some (case msg of
                       MEMCALL_ALLOC \<Rightarrow> (allocs w + 1, deallocs w, memInUse w + n)
                     | MEMCALL_DEALLOC \<Rightarrow> (allocs w, deallocs w + 1, memInUse w - n)
                     | MEMCALL_MEM_ERR \<Rightarrow> (allocs w, deallocs w, memInUse w)
                     | MEMCALL_INVALID_MEM \<Rightarrow> (allocs w, deallocs w, memInUse w))"
proof -
  have eq: "PerformCallback_at i msg n w = CallbackFunc msg n tc w"
    using sink
    by (simp add: PerformCallback_at_def PerformCallback_def call_callback_def MemCallback_ctor_def)
  have "CallbackFunc msg n tc w \<noteq> None"
    using tr by (simp only: CallbackFunc_traps) auto
  then obtain e w' where r: "CallbackFunc msg n tc w = Some (e, w')"
    by auto
  from CallbackFunc_frame [OF r] have e: "e = MEMERR_NO_ERR" and s: "sinks w' = sinks w"
    by simp_all
  from CallbackFunc_counters [OF r] s other
  have "counters_of w' j =
               Some (case msg of
                       MEMCALL_ALLOC \<Rightarrow> (allocs w + 1, deallocs w, memInUse w + n)
                     | MEMCALL_DEALLOC \<Rightarrow> (allocs w, deallocs w + 1, memInUse w - n)
                     | MEMCALL_MEM_ERR \<Rightarrow> (allocs w, deallocs w, memInUse w)
                     | MEMCALL_INVALID_MEM \<Rightarrow> (allocs w, deallocs w, memInUse w))"
    by (simp add: counters_of_def)
  with eq r e show ?thesis by simp
qed

text \<open>
  C9, a witness: an allocate event of 16 bytes dispatched through the sink at address
  0, which forwards to a console log, as read through the sink at address 1.
\<close>

theorem counters_shared_by_all_sinks_witness:
  "sinks logging_sinks 0 = Some (fst (MemCallback_ctor False (Some 0) (Some CallbackFunc_ptr) None))
   \<and> traces logging_sinks 0 = Some \<lparr>traceLog = True, traceFunc = Some PrintMessage_ptr,
                                      traceFile = closed_stream, filePath = []\<rparr>
   \<and> sinks logging_sinks 1 = Some \<lparr>callbackInit = True, traceClass = None,
                                     in_callback = Some CallbackFunc_ptr\<rparr>
   \<and> counters_of logging_sinks 1 = Some (0, 0, 0)
   \<and> (\<exists>w'. PerformCallback_at 0 MEMCALL_ALLOC 16 logging_sinks = Some (MEMERR_NO_ERR, w')
          \<and> counters_of w' 1 = Some (1, 0, 16))"
proof -
  have s0: "sinks logging_sinks 0
              = Some (fst (MemCallback_ctor False (Some 0) (Some CallbackFunc_ptr) None))"
    by (simp add: logging_sinks_def)
  have tr: "Some 0 = None \<or> (\<exists>k t. Some 0 = Some k \<and> traces logging_sinks k = Some t
                                  \<and> (traceFunc t \<noteq> None \<or> \<not> traceLog t))"
    by (simp add: logging_sinks_trace)
  have c0: "counters_of logging_sinks 1 = Some (0, 0, 0)"
    by (simp add: counters_of_def logging_sinks_1) (simp add: logging_sinks_def world0_def)
  have z: "allocs logging_sinks = 0" "deallocs logging_sinks = 0" "memInUse logging_sinks = 0"
    by (simp_all add: logging_sinks_def world0_def)
  show ?thesis
    using counters_shared_by_all_sinks [OF s0 tr logging_sinks_1, of MEMCALL_ALLOC 16]
      s0 logging_sinks_1 logging_sinks_trace c0 z
    by simp
qed

text \<open>
  C9 as stated fails: with two sinks and all counters at zero, an allocate event of
  16 bytes dispatched to the sink at address 0 changes the counters of the sink at
  address 1 to one allocation and 16 bytes in use.
\<close>

theorem counters_of_other_sink_change:
  "counters_of two_sinks 1 = Some (0, 0, 0) \<and>
   do { (e, w') \<leftarrow> PerformCallback_at 0 MEMCALL_ALLOC 16 two_sinks; counters_of w' 1 } = Some (1, 0, 16)"
  by (simp add: counters_of_def two_sinks_def world0_def PerformCallback_at_def PerformCallback_def
       MemCallback_ctor_def call_callback_def CallbackFunc_def)

subsection \<open>C10: the forwarding result in Deallocate and in Allocate\<close>




end
